theory Spec2Isabelle
  imports Main "HOL-Library.Sublist"
begin

section \<open>JavaScript values\<close>

text \<open>
  The transaction classification engine of \<^verbatim>\<open>src/tokenUtils.js\<close> (class
  \<^verbatim>\<open>TokenUtils\<close>). Every \<^verbatim>\<open>throw\<close> and every rejected promise of the source is a
  value \<open>Inl e\<close>; \<^verbatim>\<open>null\<close> is \<open>None\<close>.
\<close>

datatype js_error = TypeError | SyntaxError | ArgumentError | NumericFault | NetworkError

text \<open>\<^verbatim>\<open>String.prototype.toLowerCase\<close> on the ASCII strings the code passes (addresses).\<close>

definition lower_char :: "char \<Rightarrow> char" where
  "lower_char c =
     (case map_of (zip ''ABCDEFGHIJKLMNOPQRSTUVWXYZ'' ''abcdefghijklmnopqrstuvwxyz'') c of
        Some l \<Rightarrow> l
      | None \<Rightarrow> c)"

definition toLowerCase :: "string \<Rightarrow> string" where
  "toLowerCase s = map lower_char s"

text \<open>\<^verbatim>\<open>xs[i]\<close>: \<^verbatim>\<open>undefined\<close> (here \<open>None\<close>) out of range.\<close>

definition at_index :: "'a list \<Rightarrow> nat \<Rightarrow> 'a option" where
  "at_index xs i = (if i < length xs then Some (xs ! i) else None)"

text \<open>\<^verbatim>\<open>BigInt.prototype.toString()\<close> of a non-negative value: its decimal digits.\<close>

definition digit_char :: "nat \<Rightarrow> char" where
  "digit_char d = ''0123456789'' ! d"

fun digits :: "nat \<Rightarrow> string" where
  "digits n = (if n < 10 then [digit_char n] else digits (n div 10) @ [digit_char (n mod 10)])"

section \<open>Data model\<close>

record token_info =
  address :: string
  symbol :: string
  name :: string
  decimals :: nat

text \<open>One entry of \<^verbatim>\<open>receipt.logs\<close>.\<close>

record log_entry =
  log_address :: string
  topics :: "string list"
  data :: string

text \<open>
  The object \<^verbatim>\<open>parseTransferEvents\<close> pushes. The source's fields \<^verbatim>\<open>decimals\<close>,
  \<^verbatim>\<open>from\<close>, \<^verbatim>\<open>to\<close> and \<^verbatim>\<open>value\<close> are \<open>transfer_decimals\<close>, \<open>from'\<close>, \<open>to'\<close> and
  \<open>rawValue\<close> here (a BigInt, so an \<open>int\<close>).
\<close>

record transfer =
  tokenAddress :: string
  tokenSymbol :: string
  tokenName :: string
  transfer_decimals :: nat
  from' :: string
  to' :: string
  rawValue :: int
  valueFormatted :: string

text \<open>The fields of the transaction and of the receipt that the code reads.\<close>

record transaction =
  tx_to :: "string option"
  tx_value :: int

record receipt =
  logs :: "log_entry list"
  receipt_gasUsed :: nat
  receipt_status :: int

text \<open>
  The object \<^verbatim>\<open>detectSwap\<close> returns. The source builds three shapes (SWAP, SELL, BUY);
  a field a shape does not have is \<^verbatim>\<open>undefined\<close>, here \<open>None\<close>.
\<close>

record swap_info =
  type :: string
  dex :: string
  tokenIn :: "transfer option"
  tokenOut :: "transfer option"
  tokenSold :: "transfer option"
  ethReceived :: "string option"
  tokenBought :: "transfer option"
  ethSpent :: "string option"
  allTransfers :: "transfer list"

text \<open>
  The object \<^verbatim>\<open>analyzeTransaction\<close> returns:
  \<^verbatim>\<open>{ hash, type: swapInfo.type, ...swapInfo, gasUsed, status }\<close>.
\<close>

record analysis = swap_info +
  hash :: string
  gasUsed :: string
  status :: string

section \<open>Collaborators\<close>

text \<open>
  What the code calls and \<^verbatim>\<open>src/\<close> does not contain: the RPC provider and the
  functions of the \<^verbatim>\<open>ethers\<close> library that need the chain or a hash function.
  The three contract reads take the number of reads made so far, so that the chain
  may answer differently each time it is asked. \<open>Contract_throws\<close> says for which
  addresses \<^verbatim>\<open>new ethers.Contract(...)\<close> throws (the constructor makes no call;
  it is a function of its arguments).
\<close>

record env =
  Contract_throws :: "string \<Rightarrow> bool"
  read_symbol :: "nat \<Rightarrow> string \<Rightarrow> js_error + string"
  read_name :: "nat \<Rightarrow> string \<Rightarrow> js_error + string"
  read_decimals :: "nat \<Rightarrow> string \<Rightarrow> js_error + nat"
  getAddress :: "string \<Rightarrow> js_error + string"
  BigInt :: "string \<Rightarrow> js_error + int"
  getTransaction :: "string \<Rightarrow> js_error + transaction option"
  getTransactionReceipt :: "string \<Rightarrow> js_error + receipt option"

text \<open>
  The state of a \<^verbatim>\<open>TokenUtils\<close> instance and of the chain it reads:
  \<^verbatim>\<open>this.tokenCache\<close>, and \<open>calls\<close>, the number of contract reads made so far
  (the call count of the read collaborator).
\<close>

record tu_state =
  tokenCache :: "string \<rightharpoonup> token_info"
  calls :: nat

section \<open>Decimal rendering\<close>

text \<open>
  Modelled from the spec: \<^verbatim>\<open>ethers.formatUnits\<close> and \<^verbatim>\<open>ethers.formatEther\<close> are
  library code that \<^verbatim>\<open>src/\<close> does not contain. The spec (section 3) gives the scaled
  value as the decimal string of \<open>rawValue / 10^decimals\<close>, computed exactly, and
  writes one raw unit of 18 decimals as "1.0". The definitions below render that quotient
  the way the library does: the digits of the integer, padded with zeros to more than
  \<open>decimals\<close> digits, the point put \<open>decimals\<close> digits from the right, then the zeros
  before the whole part and after the fraction dropped, one digit kept on each side
  (\<open>fixedToString\<close>). The library holds the value as a signed fixed-point number of 512
  bits with at most 80 decimals: \<^verbatim>\<open>formatUnits\<close> throws when the decimals are above 80
  and when the value is outside the signed range of 512 bits.
\<close>

function padZeros :: "nat \<Rightarrow> string \<Rightarrow> string" where
  "padZeros n str = (if length str \<le> n then padZeros n (''0000'' @ str) else str)"
  by pat_completeness auto
termination
  by (relation "measure (\<lambda>(n, str). Suc n - length str)") auto

text \<open>
  \<^verbatim>\<open>while (str[0] === "0" && str[1] !== ".") { str = str.substring(1); }\<close>
  (\<^verbatim>\<open>str[1]\<close> of a one-character string is \<^verbatim>\<open>undefined\<close>, which is not ".").
\<close>

fun trimZeros :: "string \<Rightarrow> string" where
  "trimZeros [] = []"
| "trimZeros [c] = (if c = CHR ''0'' then [] else [c])"
| "trimZeros (c # d # str) =
     (if c = CHR ''0'' \<and> d \<noteq> CHR ''.'' then trimZeros (d # str) else c # d # str)"

text \<open>
  The same loop from the right end, on the last and the last but one character:
  the loop above on the reversed string.
\<close>

definition trimFraction :: "string \<Rightarrow> string" where
  "trimFraction str = rev (trimZeros (rev str))"

definition fixedToString :: "int \<Rightarrow> nat \<Rightarrow> string" where
  "fixedToString val unit =
     (let negative = (if val < 0 then ''-'' else '''');
          str = digits (nat \<bar>val\<bar>)
      in if unit = 0 then negative @ str
         else
           let str = padZeros unit str;
               index = length str - unit;
               str = take index str @ ''.'' @ drop index str;
               str = trimZeros str;
               str = trimFraction str
           in negative @ str)"

text \<open>The range of a signed value of 512 bits.\<close>

definition inRange512 :: "int \<Rightarrow> bool" where
  "inRange512 val = (- (2 ^ 511) \<le> val \<and> val < 2 ^ 511)"

definition formatUnits :: "int \<Rightarrow> nat \<Rightarrow> js_error + string" where
  "formatUnits val unit =
     (if 80 < unit then Inl ArgumentError
      else if inRange512 val then Inr (fixedToString val unit)
      else Inl NumericFault)"

text \<open>
  \<^verbatim>\<open>formatEther(wei)\<close> is \<^verbatim>\<open>formatUnits(wei, 18)\<close>. The code applies it to
  \<^verbatim>\<open>tx.value\<close> only, an unsigned value of 256 bits, which is inside the range above:
  neither throw can happen there, and \<open>formatEther\<close> is the string itself.
\<close>

definition formatEther :: "int \<Rightarrow> string" where
  "formatEther wei = fixedToString wei 18"

section \<open>Token metadata: getTokenInfo\<close>

definition getTokenInfo :: "env \<Rightarrow> tu_state \<Rightarrow> string \<Rightarrow> token_info \<times> tu_state" where
  "getTokenInfo e st tokenAddr =
     (case tokenCache st (toLowerCase tokenAddr) of
        Some cached \<Rightarrow> (cached, st)
      | None \<Rightarrow>
          if Contract_throws e tokenAddr then
            (\<lparr>address = tokenAddr, symbol = ''UNKNOWN'', name = ''Unknown Token'',
              decimals = 18\<rparr>, st)
          else
            let n = calls st;
                sym = (case read_symbol e n tokenAddr of
                         Inl _ \<Rightarrow> ''UNKNOWN'' | Inr s \<Rightarrow> s);
                nam = (case read_name e (n + 1) tokenAddr of
                         Inl _ \<Rightarrow> ''Unknown Token'' | Inr s \<Rightarrow> s);
                dec = (case read_decimals e (n + 2) tokenAddr of
                         Inl _ \<Rightarrow> 18 | Inr d \<Rightarrow> d);
                tokenInfo = \<lparr>address = tokenAddr, symbol = sym, name = nam,
                              decimals = dec\<rparr>
            in (tokenInfo,
                st\<lparr>tokenCache := (tokenCache st)(toLowerCase tokenAddr \<mapsto> tokenInfo),
                   calls := n + 3\<rparr>))"

section \<open>Transfer events: parseTransferEvents\<close>

text \<open>\<^verbatim>\<open>ethers.id('Transfer(address,address,uint256)')\<close>, the event's signature hash.\<close>

definition transferTopic :: string where
  "transferTopic = ''0xddf252ad1be2c89b69c2b068fc378daa952ba7f163c4a11628f55a4df523b3ef''"

text \<open>\<^verbatim>\<open>log.topics[0] === transferTopic\<close>: the log has the Transfer signature.\<close>

definition isTransferLog :: "log_entry \<Rightarrow> bool" where
  "isTransferLog log = (at_index (topics log) 0 = Some transferTopic)"

text \<open>
  The body of the loop, inside its \<^verbatim>\<open>try\<close>, with the state it leaves. The result is
  \<open>Inr None\<close> when the log is not a Transfer, \<open>Inr (Some t)\<close> when one transfer is
  pushed, \<open>Inl err\<close> when a step throws: a missing topic, an address \<^verbatim>\<open>getAddress\<close>
  refuses, data \<^verbatim>\<open>BigInt\<close> cannot read, or an amount \<^verbatim>\<open>formatUnits\<close> cannot print.
  The first three come before the call of \<^verbatim>\<open>getTokenInfo\<close> and leave the state as it
  was; \<^verbatim>\<open>formatUnits\<close> is called after it, so its throw leaves the token in the cache.
\<close>

definition parseLog :: "env \<Rightarrow> tu_state \<Rightarrow> log_entry \<Rightarrow> (js_error + transfer option) \<times> tu_state" where
  "parseLog e st log =
     (if isTransferLog log then
        (case at_index (topics log) 1 of
           None \<Rightarrow> (Inl TypeError, st)
         | Some topic1 \<Rightarrow>
        (case getAddress e (''0x'' @ drop 26 topic1) of
           Inl err \<Rightarrow> (Inl err, st)
         | Inr from \<Rightarrow>
        (case at_index (topics log) 2 of
           None \<Rightarrow> (Inl TypeError, st)
         | Some topic2 \<Rightarrow>
        (case getAddress e (''0x'' @ drop 26 topic2) of
           Inl err \<Rightarrow> (Inl err, st)
         | Inr to \<Rightarrow>
        (case BigInt e (data log) of
           Inl err \<Rightarrow> (Inl err, st)
         | Inr val \<Rightarrow>
             (case getTokenInfo e st (log_address log) of
                (tokenInfo, st') \<Rightarrow>
                  (case formatUnits val (decimals tokenInfo) of
                     Inl err \<Rightarrow> (Inl err, st')
                   | Inr formatted \<Rightarrow>
                       (Inr (Some \<lparr>tokenAddress = log_address log,
                                    tokenSymbol = symbol tokenInfo,
                                    tokenName = name tokenInfo,
                                    transfer_decimals = decimals tokenInfo,
                                    from' = from,
                                    to' = to,
                                    rawValue = val,
                                    valueFormatted = formatted\<rparr>),
                        st'))))))))
      else (Inr None, st))"

text \<open>The loop over \<^verbatim>\<open>receipt.logs\<close>; the \<^verbatim>\<open>catch\<close> goes on with the next log.\<close>

fun parseLoop :: "env \<Rightarrow> log_entry list \<Rightarrow> transfer list \<Rightarrow> tu_state \<Rightarrow> transfer list \<times> tu_state" where
  "parseLoop e [] transfers st = (transfers, st)"
| "parseLoop e (log # rest) transfers st =
     (case parseLog e st log of
        (Inl err, st') \<Rightarrow> parseLoop e rest transfers st'
      | (Inr None, st') \<Rightarrow> parseLoop e rest transfers st'
      | (Inr (Some t), st') \<Rightarrow> parseLoop e rest (transfers @ [t]) st')"

definition parseTransferEvents :: "env \<Rightarrow> tu_state \<Rightarrow> receipt \<Rightarrow> transfer list \<times> tu_state" where
  "parseTransferEvents e st rcpt = parseLoop e (logs rcpt) [] st"

section \<open>Classification: detectSwap\<close>

definition KNOWN_DEX_ROUTERS :: "(string \<times> string) list" where
  "KNOWN_DEX_ROUTERS =
     [(''0x4752ba5dbc23f44d87826276bf6fd6b1c372ad24'', ''BaseSwap''),
      (''0x327df1e6de05895d2ab08513aadd9313fe505d86'', ''Aerodrome''),
      (''0x2626664c2603336e57b271c5c0b26f421741e481'', ''Uniswap V3 Router''),
      (''0xd0dbb1d0b0d4e0e482c1c1a6cf7e6a13b9a7e8c3'', ''SushiSwap''),
      (''0x1b81d678ffb9c0263b24a97847620c99d213eb14'', ''Balancer''),
      (''0x3fc91a3afd70395cd496c647d5a6cc9d4b2b7fad'', ''Uniswap Universal Router'')]"

text \<open>
  \<^verbatim>\<open>tx.to?.toLowerCase()\<close>, then the table when the address is a non-empty string
  (the keys looked up are addresses).
\<close>

definition dexOf :: "transaction \<Rightarrow> string" where
  "dexOf tx =
     (case map_option toLowerCase (tx_to tx) of
        None \<Rightarrow> ''Unknown DEX''
      | Some toAddress \<Rightarrow>
          if toAddress = '''' then ''Unknown DEX''
          else (case map_of KNOWN_DEX_ROUTERS toAddress of
                  None \<Rightarrow> ''Unknown DEX''
                | Some dexName \<Rightarrow> dexName))"

text \<open>\<^verbatim>\<open>tx.value ? ethers.formatEther(tx.value) : '0'\<close> (the BigInt \<^verbatim>\<open>0n\<close> is falsy).\<close>

definition ethChangeOf :: "transaction \<Rightarrow> string" where
  "ethChangeOf tx = (if tx_value tx \<noteq> 0 then formatEther (tx_value tx) else ''0'')"

definition sentBy :: "string \<Rightarrow> transfer \<Rightarrow> bool" where
  "sentBy walletLower t = (toLowerCase (from' t) = walletLower)"

definition receivedBy :: "string \<Rightarrow> transfer \<Rightarrow> bool" where
  "receivedBy walletLower t = (toLowerCase (to' t) = walletLower)"

definition classify :: "transaction \<Rightarrow> string \<Rightarrow> transfer list \<Rightarrow> swap_info option" where
  "classify tx walletAddress transfers =
     (let walletLower = toLowerCase walletAddress in
      if length transfers < 2 then None
      else
        let tokensSent = filter (sentBy walletLower) transfers;
            tokensReceived = filter (receivedBy walletLower) transfers
        in if length tokensSent = 0 \<and> length tokensReceived = 0 then None
           else
             let dexName = dexOf tx in
             if length tokensSent > 0 \<and> length tokensReceived > 0 then
               Some \<lparr>type = ''SWAP'', dex = dexName,
                     tokenIn = Some (tokensSent ! 0), tokenOut = Some (tokensReceived ! 0),
                     tokenSold = None, ethReceived = None,
                     tokenBought = None, ethSpent = None,
                     allTransfers = transfers\<rparr>
             else if length tokensSent > 0 then
               Some \<lparr>type = ''SELL'', dex = dexName,
                     tokenIn = None, tokenOut = None,
                     tokenSold = Some (tokensSent ! 0), ethReceived = Some (ethChangeOf tx),
                     tokenBought = None, ethSpent = None,
                     allTransfers = transfers\<rparr>
             else if length tokensReceived > 0 then
               Some \<lparr>type = ''BUY'', dex = dexName,
                     tokenIn = None, tokenOut = None,
                     tokenSold = None, ethReceived = None,
                     tokenBought = Some (tokensReceived ! 0), ethSpent = Some (ethChangeOf tx),
                     allTransfers = transfers\<rparr>
             else None)"

text \<open>
  \<^verbatim>\<open>detectSwap(tx, receipt, walletAddress)\<close>: the transfers of the receipt, then the
  decision \<open>classify\<close> (the rest of the function's body).
\<close>

definition detectSwap :: "env \<Rightarrow> tu_state \<Rightarrow> transaction \<Rightarrow> receipt \<Rightarrow> string \<Rightarrow> swap_info option \<times> tu_state" where
  "detectSwap e st tx rcpt walletAddress =
     (case parseTransferEvents e st rcpt of
        (transfers, st') \<Rightarrow> (classify tx walletAddress transfers, st'))"

section \<open>analyzeTransaction\<close>

text \<open>
  Both reads are awaited together; a rejected read is caught by the \<^verbatim>\<open>catch\<close> of the
  function, which returns \<^verbatim>\<open>null\<close>, as does a transaction or receipt that is not found,
  and a transaction \<^verbatim>\<open>detectSwap\<close> has nothing to say about.
\<close>

definition analyzeTransaction :: "env \<Rightarrow> tu_state \<Rightarrow> string \<Rightarrow> string \<Rightarrow> analysis option \<times> tu_state" where
  "analyzeTransaction e st txHash walletAddress =
     (case (getTransaction e txHash, getTransactionReceipt e txHash) of
        (Inl err, _) \<Rightarrow> (None, st)
      | (_, Inl err) \<Rightarrow> (None, st)
      | (Inr None, _) \<Rightarrow> (None, st)
      | (_, Inr None) \<Rightarrow> (None, st)
      | (Inr (Some tx), Inr (Some rcpt)) \<Rightarrow>
          (case detectSwap e st tx rcpt walletAddress of
             (Some swapInfo, st') \<Rightarrow>
               (Some (swap_info.extend swapInfo
                        (analysis.fields txHash
                           (digits (receipt_gasUsed rcpt))
                           (if receipt_status rcpt = 1 then ''Success'' else ''Failed''))),
                st')
           | (None, st') \<Rightarrow> (None, st')))"

section \<open>formatTransactionSummary\<close>

text \<open>
  The formatter reads its amounts with \<^verbatim>\<open>parseFloat\<close> and prints them with
  \<^verbatim>\<open>toFixed\<close>; these floating-point operations are parameters. \<open>parseFloat\<close> takes
  \<open>None\<close> for \<^verbatim>\<open>undefined\<close>.
\<close>

record 'f float_ops =
  parseFloat :: "string option \<Rightarrow> 'f"
  greaterThanZero :: "'f \<Rightarrow> bool"
  times3000 :: "'f \<Rightarrow> 'f"
  toFixed :: "'f \<Rightarrow> nat \<Rightarrow> string"

text \<open>The non-ASCII characters of the source's string literals, byte for byte.\<close>

definition glyphBuy :: string where
  "glyphBuy = [CHR 0xC3, CHR 0xB0, CHR 0xC5, CHR 0xB8, CHR 0xC5, CHR 0xB8, CHR 0xC2, CHR 0xA2]"

definition glyphSell :: string where
  "glyphSell = [CHR 0xC3, CHR 0xB0, CHR 0xC5, CHR 0xB8, CHR 0xE2, CHR 0x80, CHR 0x9D, CHR 0xC2, CHR 0xB4]"

definition glyphSwap :: string where
  "glyphSwap = [CHR 0xC3, CHR 0xB0, CHR 0xC5, CHR 0xB8, CHR 0xE2, CHR 0x80, CHR 0x9D, CHR 0xE2, CHR 0x80, CHR 0x9E]"

definition glyphArrow :: string where
  "glyphArrow = [CHR 0xC3, CHR 0xA2, CHR 0xE2, CHR 0x80, CHR 0xA0, CHR 0xE2, CHR 0x80, CHR 0x99]"

definition newline :: string where
  "newline = [CHR 0x0A]"

text \<open>
  \<^verbatim>\<open>amount !== '0' ? parseFloat(amount) : 0\<close>, then
  \<^verbatim>\<open>x > 0 ? (x * 3000).toFixed(2) : 'N/A'\<close>; the literal \<^verbatim>\<open>0\<close> is not above zero.
\<close>

definition usdValueOf :: "'f float_ops \<Rightarrow> string option \<Rightarrow> string" where
  "usdValueOf ops amount =
     (if amount \<noteq> Some ''0'' then
        (let eth = parseFloat ops amount
         in if greaterThanZero ops eth then toFixed ops (times3000 ops eth) 2 else ''N/A'')
      else ''N/A'')"

text \<open>
  \<open>Inr None\<close> is the \<^verbatim>\<open>null\<close> of the \<^verbatim>\<open>default\<close> branch; \<open>Inl TypeError\<close> is the read of a
  property of \<^verbatim>\<open>undefined\<close> (an analysis of type BUY with no \<^verbatim>\<open>tokenBought\<close>).
\<close>

definition formatTransactionSummary :: "'f float_ops \<Rightarrow> analysis option \<Rightarrow> string option \<Rightarrow> js_error + string option" where
  "formatTransactionSummary ops an walletAddress =
     (case an of
        None \<Rightarrow> Inr (Some ''Unable to analyze transaction'')
      | Some a \<Rightarrow>
          let basescanLink = ''https://basescan.org/tx/'' @ hash a;
              shortWallet = (case walletAddress of
                               None \<Rightarrow> ''Wallet''
                             | Some w \<Rightarrow> if w = [] then ''Wallet'' else w)
          in if type a = ''BUY'' then
               (case tokenBought a of
                  None \<Rightarrow> Inl TypeError
                | Some bought \<Rightarrow>
                    Inr (Some (glyphBuy @ '' *BUY*'' @ newline @ newline
                      @ ''Wallet: `'' @ shortWallet @ ''`'' @ newline
                      @ ''Amount: $'' @ usdValueOf ops (ethSpent a) @ '' USD'' @ newline
                      @ ''Token: '' @ tokenSymbol bought @ newline
                      @ ''Contract: `'' @ tokenAddress bought @ ''`'' @ newline @ newline
                      @ ''[BaseScan]('' @ basescanLink @ '')'')))
             else if type a = ''SELL'' then
               (case tokenSold a of
                  None \<Rightarrow> Inl TypeError
                | Some sold \<Rightarrow>
                    Inr (Some (glyphSell @ '' *SELL*'' @ newline @ newline
                      @ ''Wallet: `'' @ shortWallet @ ''`'' @ newline
                      @ ''Amount: $'' @ usdValueOf ops (ethReceived a) @ '' USD'' @ newline
                      @ ''Token: '' @ tokenSymbol sold @ newline
                      @ ''Contract: `'' @ tokenAddress sold @ ''`'' @ newline @ newline
                      @ ''[BaseScan]('' @ basescanLink @ '')'')))
             else if type a = ''SWAP'' then
               (case (tokenIn a, tokenOut a) of
                  (None, _) \<Rightarrow> Inl TypeError
                | (_, None) \<Rightarrow> Inl TypeError
                | (Some tin, Some tout) \<Rightarrow>
                    Inr (Some (glyphSwap @ '' *SWAP*'' @ newline @ newline
                      @ ''Wallet: `'' @ shortWallet @ ''`'' @ newline
                      @ toFixed ops (parseFloat ops (Some (valueFormatted tin))) 4
                      @ '' '' @ tokenSymbol tin @ '' '' @ glyphArrow @ '' ''
                      @ toFixed ops (parseFloat ops (Some (valueFormatted tout))) 4
                      @ '' '' @ tokenSymbol tout @ newline @ newline
                      @ ''Contract: `'' @ tokenAddress tout @ ''`'' @ newline @ newline
                      @ ''[BaseScan]('' @ basescanLink @ '')'')))
             else Inr None)"

section \<open>Predicates of the statements\<close>

text \<open>
  \<open>decodes e log\<close>: the log has the Transfer signature and the steps of the loop body
  before \<^verbatim>\<open>getTokenInfo\<close> succeed on it (two more topics, both accepted by
  \<^verbatim>\<open>getAddress\<close>, and data that \<^verbatim>\<open>BigInt\<close> reads). \<open>pushes e st log\<close>: moreover
  \<^verbatim>\<open>formatUnits\<close> prints the amount with the decimals the token resolves to in the state
  \<open>st\<close> (at most 80 decimals, an amount in the signed range of 512 bits); these are the
  logs no step of the body throws on. \<open>stateAfter e st log\<close>: the state the body leaves,
  with the token resolved as soon as the log decodes.
\<close>

definition decodes :: "env \<Rightarrow> log_entry \<Rightarrow> bool" where
  "decodes e log =
     (isTransferLog log \<and>
      (case (at_index (topics log) 1, at_index (topics log) 2) of
         (Some topic1, Some topic2) \<Rightarrow>
           \<not> isl (getAddress e (''0x'' @ drop 26 topic1))
           \<and> \<not> isl (getAddress e (''0x'' @ drop 26 topic2))
           \<and> \<not> isl (BigInt e (data log))
       | _ \<Rightarrow> False))"

definition pushes :: "env \<Rightarrow> tu_state \<Rightarrow> log_entry \<Rightarrow> bool" where
  "pushes e st log =
     (decodes e log \<and>
      (case BigInt e (data log) of
         Inl err \<Rightarrow> False
       | Inr val \<Rightarrow>
           decimals (fst (getTokenInfo e st (log_address log))) \<le> 80 \<and> inRange512 val))"

definition stateAfter :: "env \<Rightarrow> tu_state \<Rightarrow> log_entry \<Rightarrow> tu_state" where
  "stateAfter e st log =
     (if decodes e log then snd (getTokenInfo e st (log_address log)) else st)"

text \<open>The logs of a list that push a transfer, each in the state the logs before it leave.\<close>

fun keptLogs :: "env \<Rightarrow> tu_state \<Rightarrow> log_entry list \<Rightarrow> log_entry list" where
  "keptLogs e st [] = []"
| "keptLogs e st (log # rest) =
     (if pushes e st log then log # keptLogs e (stateAfter e st log) rest
      else keptLogs e (stateAfter e st log) rest)"

text \<open>
  \<open>decodedFrom e t log\<close>: the transfer \<open>t\<close> carries the token, the parties and the amount
  of \<open>log\<close>, and the amount printed with the transfer's decimals.
\<close>

definition decodedFrom :: "env \<Rightarrow> transfer \<Rightarrow> log_entry \<Rightarrow> bool" where
  "decodedFrom e t log =
     (tokenAddress t = log_address log
      \<and> (case (at_index (topics log) 1, at_index (topics log) 2) of
           (Some topic1, Some topic2) \<Rightarrow>
             getAddress e (''0x'' @ drop 26 topic1) = Inr (from' t)
             \<and> getAddress e (''0x'' @ drop 26 topic2) = Inr (to' t)
         | _ \<Rightarrow> False)
      \<and> BigInt e (data log) = Inr (rawValue t)
      \<and> formatUnits (rawValue t) (transfer_decimals t) = Inr (valueFormatted t))"




section \<open>Example data\<close>

text \<open>A 32-byte topic that holds an address in its last 20 bytes.\<close>

definition addressTopic :: "string \<Rightarrow> string" where
  "addressTopic a = ''0x000000000000000000000000'' @ drop 2 a"

definition walletX :: string where
  "walletX = ''0xABCDEF0123456789abcdef0123456789ABCDEF01''"

definition routerX :: string where
  "routerX = ''0x4752BA5DBC23f44D87826276BF6Fd6b1C372aD24''"

definition tokenA :: string where
  "tokenA = ''0x00000000000000000000000000000000000000A1''"

definition tokenB :: string where
  "tokenB = ''0x00000000000000000000000000000000000000B2''"

definition oneEther :: string where
  "oneEther = ''0x0000000000000000000000000000000000000000000000000de0b6b3a7640000''"

definition fiveHundred :: string where
  "fiveHundred = ''0x000000000000000000000000000000000000000000000000000000001dcd6500''"

text \<open>Sixty-four bytes of data: the number \<open>2^511\<close>.\<close>

definition hugeAmount :: string where
  "hugeAmount =
     ''0x80000000000000000000000000000000000000000000000000000000000000000'' @
     ''000000000000000000000000000000000000000000000000000000000000000''"

text \<open>A Transfer of \<open>token\<close> from \<open>src\<close> to \<open>dst\<close>, as a receipt log.\<close>

definition transferLog :: "string \<Rightarrow> string \<Rightarrow> string \<Rightarrow> string \<Rightarrow> log_entry" where
  "transferLog token src dst amount =
     \<lparr>log_address = token, topics = [transferTopic, addressTopic src, addressTopic dst],
      data = amount\<rparr>"

text \<open>
  The wallet sends one unit of token A (18 decimals) to the router and receives 500 units
  of token B (6 decimals); a pool event stands between the two transfers.
\<close>

definition swapLogs :: "log_entry list" where
  "swapLogs =
     [transferLog tokenA (toLowerCase walletX) routerX oneEther,
      \<lparr>log_address = routerX, topics = [''0x1c411e9a''], data = ''0x''\<rparr>,
      transferLog tokenB routerX (toLowerCase walletX) fiveHundred]"

definition swapTx :: transaction where
  "swapTx = \<lparr>tx_to = Some routerX, tx_value = 0\<rparr>"

definition swapReceipt :: receipt where
  "swapReceipt = \<lparr>logs = swapLogs, receipt_gasUsed = 150000, receipt_status = 1\<rparr>"

text \<open>
  The same swap whose first transfer carries \<open>2^511\<close>, an amount \<^verbatim>\<open>formatUnits\<close>
  does not print.
\<close>

definition swapReceiptHuge :: receipt where
  "swapReceiptHuge =
     \<lparr>logs = [transferLog tokenA (toLowerCase walletX) routerX hugeAmount,
               \<lparr>log_address = routerX, topics = [''0x1c411e9a''], data = ''0x''\<rparr>,
               transferLog tokenB routerX (toLowerCase walletX) fiveHundred],
      receipt_gasUsed = 150000, receipt_status = 1\<rparr>"

text \<open>The same swap with the two amounts exchanged.\<close>

definition swapReceiptOtherAmounts :: receipt where
  "swapReceiptOtherAmounts =
     \<lparr>logs = [transferLog tokenA (toLowerCase walletX) routerX fiveHundred,
               \<lparr>log_address = routerX, topics = [''0x1c411e9a''], data = ''0x''\<rparr>,
               transferLog tokenB routerX (toLowerCase walletX) oneEther],
      receipt_gasUsed = 150000, receipt_status = 1\<rparr>"

text \<open>Tokens only leave the wallet; tokens only reach it (paid with one ether).\<close>

definition sellReceipt :: receipt where
  "sellReceipt =
     \<lparr>logs = [transferLog tokenA (toLowerCase walletX) routerX oneEther,
               transferLog tokenA routerX tokenB oneEther],
      receipt_gasUsed = 120000, receipt_status = 1\<rparr>"

definition buyTx :: transaction where
  "buyTx = \<lparr>tx_to = Some routerX, tx_value = 1000000000000000000\<rparr>"

definition buyReceipt :: receipt where
  "buyReceipt =
     \<lparr>logs = [transferLog tokenB tokenA routerX fiveHundred,
               transferLog tokenB routerX (toLowerCase walletX) fiveHundred],
      receipt_gasUsed = 120000, receipt_status = 1\<rparr>"

text \<open>One transfer to the wallet and nothing else.\<close>

definition singleReceipt :: receipt where
  "singleReceipt =
     \<lparr>logs = [transferLog tokenB routerX (toLowerCase walletX) fiveHundred],
      receipt_gasUsed = 50000, receipt_status = 1\<rparr>"

text \<open>A plain send of one ether: no log at all.\<close>

definition plainTx :: transaction where
  "plainTx = \<lparr>tx_to = Some routerX, tx_value = 1000000000000000000\<rparr>"

definition plainReceipt :: receipt where
  "plainReceipt = \<lparr>logs = [], receipt_gasUsed = 21000, receipt_status = 1\<rparr>"

text \<open>
  The Transfer of a non-fungible token has the same signature hash, a fourth topic for
  the token id and no data: \<^verbatim>\<open>BigInt("0x")\<close> throws a SyntaxError.
\<close>

definition nftReceipt :: receipt where
  "nftReceipt =
     \<lparr>logs = [\<lparr>log_address = tokenA,
                topics = [transferTopic, addressTopic routerX,
                          addressTopic (toLowerCase walletX),
                          ''0x0000000000000000000000000000000000000000000000000000000000000007''],
                data = ''0x''\<rparr>],
      receipt_gasUsed = 80000, receipt_status = 1\<rparr>"

text \<open>
  A stand-in for the chain and the library: token A answers every read, token B only
  the read of its decimals; \<^verbatim>\<open>getAddress\<close> accepts the strings of 42 characters;
  \<^verbatim>\<open>BigInt\<close> reads the three amounts above; the node knows three transactions and is
  out of reach for every other hash.
\<close>

definition mock_env :: env where
  "mock_env =
     \<lparr>Contract_throws = (\<lambda>a. False),
      read_symbol = (\<lambda>n a. if a = tokenA then Inr ''AAA'' else Inl NetworkError),
      read_name = (\<lambda>n a. if a = tokenA then Inr ''Token A'' else Inl NetworkError),
      read_decimals = (\<lambda>n a. if a = tokenA then Inr 18 else if a = tokenB then Inr 6
                               else Inl NetworkError),
      getAddress = (\<lambda>s. if length s = 42 then Inr s else Inl ArgumentError),
      BigInt = (\<lambda>s. if s = oneEther then Inr 1000000000000000000
                     else if s = fiveHundred then Inr 500000000
                     else if s = hugeAmount then Inr (2 ^ 511)
                     else Inl SyntaxError),
      getTransaction = (\<lambda>h. if h = ''0xswap'' then Inr (Some swapTx)
                             else if h = ''0xplain'' then Inr (Some plainTx)
                             else if h = ''0xmissing'' then Inr None
                             else Inl NetworkError),
      getTransactionReceipt = (\<lambda>h. if h = ''0xswap'' then Inr (Some swapReceipt)
                             else if h = ''0xplain'' then Inr (Some plainReceipt)
                             else if h = ''0xmissing'' then Inr None
                             else Inl NetworkError)\<rparr>"

text \<open>
  A stand-in for the floating-point operations that keeps the text of a number:
  enough to run the formatter, not a model of \<^verbatim>\<open>parseFloat\<close>.
\<close>

definition text_ops :: "string float_ops" where
  "text_ops =
     \<lparr>parseFloat = (\<lambda>s. case s of None \<Rightarrow> ''NaN'' | Some x \<Rightarrow> x),
      greaterThanZero = (\<lambda>x. x \<noteq> ''NaN'' \<and> x \<noteq> ''0.0''),
      times3000 = (\<lambda>x. ''3000*'' @ x),
      toFixed = (\<lambda>x n. x)\<rparr>"

text \<open>An analysis of a type the formatter has no branch for.\<close>

definition transferAnalysis :: analysis where
  "transferAnalysis =
     \<lparr>type = ''TRANSFER'', dex = ''Unknown DEX'', tokenIn = None, tokenOut = None,
      tokenSold = None, ethReceived = None, tokenBought = None, ethSpent = None,
      allTransfers = [], hash = ''0xplain'', gasUsed = ''21000'', status = ''Success''\<rparr>"

definition st0 :: tu_state where
  "st0 = \<lparr>tokenCache = Map.empty, calls = 0\<rparr>"

section \<open>Evaluation of the examples\<close>

declare digits.simps [simp del] padZeros.simps [simp del]

lemmas example_defs = swapReceipt_def swapLogs_def swapTx_def sellReceipt_def buyTx_def
  buyReceipt_def singleReceipt_def plainTx_def plainReceipt_def nftReceipt_def
  swapReceiptOtherAmounts_def swapReceiptHuge_def mock_env_def
  st0_def addressTopic_def transferLog_def tokenA_def tokenB_def walletX_def routerX_def
  oneEther_def fiveHundred_def hugeAmount_def

lemmas run_defs = parseTransferEvents_def parseLog_def isTransferLog_def at_index_def
  transferTopic_def
  getTokenInfo_def toLowerCase_def lower_char_def Let_def
  formatUnits_def inRange512_def fixedToString_def
  digits.simps padZeros.simps trimFraction_def digit_char_def

lemma swap_transfers:
  "fst (parseTransferEvents mock_env st0 swapReceipt) =
   [\<lparr>tokenAddress = tokenA, tokenSymbol = ''AAA'', tokenName = ''Token A'',
     transfer_decimals = 18, from' = toLowerCase walletX, to' = routerX,
     rawValue = 1000000000000000000, valueFormatted = ''1.0''\<rparr>,
    \<lparr>tokenAddress = tokenB, tokenSymbol = ''UNKNOWN'', tokenName = ''Unknown Token'',
     transfer_decimals = 6, from' = routerX, to' = toLowerCase walletX,
     rawValue = 500000000, valueFormatted = ''500.0''\<rparr>]"
  by (simp add: example_defs run_defs)

lemma sell_transfers:
  "fst (parseTransferEvents mock_env st0 sellReceipt) =
   [\<lparr>tokenAddress = tokenA, tokenSymbol = ''AAA'', tokenName = ''Token A'',
     transfer_decimals = 18, from' = toLowerCase walletX, to' = routerX,
     rawValue = 1000000000000000000, valueFormatted = ''1.0''\<rparr>,
    \<lparr>tokenAddress = tokenA, tokenSymbol = ''AAA'', tokenName = ''Token A'',
     transfer_decimals = 18, from' = routerX, to' = tokenB,
     rawValue = 1000000000000000000, valueFormatted = ''1.0''\<rparr>]"
  by (simp add: example_defs run_defs)

lemma buy_transfers:
  "fst (parseTransferEvents mock_env st0 buyReceipt) =
   [\<lparr>tokenAddress = tokenB, tokenSymbol = ''UNKNOWN'', tokenName = ''Unknown Token'',
     transfer_decimals = 6, from' = tokenA, to' = routerX,
     rawValue = 500000000, valueFormatted = ''500.0''\<rparr>,
    \<lparr>tokenAddress = tokenB, tokenSymbol = ''UNKNOWN'', tokenName = ''Unknown Token'',
     transfer_decimals = 6, from' = routerX, to' = toLowerCase walletX,
     rawValue = 500000000, valueFormatted = ''500.0''\<rparr>]"
  by (simp add: example_defs run_defs)

lemma single_transfers:
  "fst (parseTransferEvents mock_env st0 singleReceipt) =
   [\<lparr>tokenAddress = tokenB, tokenSymbol = ''UNKNOWN'', tokenName = ''Unknown Token'',
     transfer_decimals = 6, from' = routerX, to' = toLowerCase walletX,
     rawValue = 500000000, valueFormatted = ''500.0''\<rparr>]"
  by (simp add: example_defs run_defs)

lemma nft_transfers: "fst (parseTransferEvents mock_env st0 nftReceipt) = []"
  by (simp add: example_defs run_defs)

lemma huge_transfers:
  "fst (parseTransferEvents mock_env st0 swapReceiptHuge) =
   [\<lparr>tokenAddress = tokenB, tokenSymbol = ''UNKNOWN'', tokenName = ''Unknown Token'',
     transfer_decimals = 6, from' = routerX, to' = toLowerCase walletX,
     rawValue = 500000000, valueFormatted = ''500.0''\<rparr>]"
  by (simp add: example_defs run_defs)

lemma decimals_tokenA: "decimals (fst (getTokenInfo mock_env st0 tokenA)) = 18"
  by (simp add: getTokenInfo_def mock_env_def st0_def Let_def)

lemma decimals_tokenB: "decimals (fst (getTokenInfo mock_env st0 tokenB)) = 6"
  by (simp add: getTokenInfo_def mock_env_def st0_def tokenA_def tokenB_def Let_def)

lemma lower_char_idem: "lower_char (lower_char c) = lower_char c"
  by (simp add: lower_char_def)

lemma toLowerCase_idem: "toLowerCase (toLowerCase s) = toLowerCase s"
  by (simp add: toLowerCase_def lower_char_idem)

lemma lower_walletX: "toLowerCase walletX = ''0xabcdef0123456789abcdef0123456789abcdef01''"
  by (simp add: walletX_def toLowerCase_def lower_char_def)

lemma lower_walletX_again:
  "toLowerCase ''0xabcdef0123456789abcdef0123456789abcdef01'' =
     ''0xabcdef0123456789abcdef0123456789abcdef01''"
  using toLowerCase_idem [of walletX] by (simp only: lower_walletX)

lemma lower_routerX: "toLowerCase routerX = ''0x4752ba5dbc23f44d87826276bf6fd6b1c372ad24''"
  by (simp add: routerX_def toLowerCase_def lower_char_def)

lemma lower_tokenA: "toLowerCase tokenA = ''0x00000000000000000000000000000000000000a1''"
  by (simp add: tokenA_def toLowerCase_def lower_char_def)

lemma lower_tokenB: "toLowerCase tokenB = ''0x00000000000000000000000000000000000000b2''"
  by (simp add: tokenB_def toLowerCase_def lower_char_def)

lemmas lower_examples = lower_walletX lower_walletX_again lower_routerX lower_tokenA lower_tokenB

lemma dexOf_swapTx: "dexOf swapTx = ''BaseSwap''"
  by (simp add: dexOf_def swapTx_def lower_routerX KNOWN_DEX_ROUTERS_def)

section \<open>Auxiliary facts\<close>

lemma find_filter: "filter P xs \<noteq> [] \<Longrightarrow> find P xs = Some (filter P xs ! 0)"
  by (induction xs) auto


subsection \<open>Digits and the decimal point\<close>

lemma digits_nonempty: "digits n \<noteq> []"
  by (subst digits.simps) simp

lemma digit_char_0: "digit_char 0 = CHR ''0''"
  by (simp add: digit_char_def)

lemma digits_times10: "0 < n \<Longrightarrow> digits (10 * n) = digits n @ ''0''"
  by (subst digits.simps) (simp add: digit_char_0)

lemma digits_pow10: "0 < k \<Longrightarrow> digits (10 ^ d * k) = digits k @ replicate d CHR ''0''"
proof (induction d)
  case 0
  then show ?case by simp
next
  case (Suc d)
  have "digits (10 ^ Suc d * k) = digits (10 * (10 ^ d * k))"
    by (simp add: mult.assoc)
  also have "\<dots> = digits (10 ^ d * k) @ ''0''"
    using Suc.prems by (intro digits_times10) simp
  also have "\<dots> = digits k @ replicate (Suc d) CHR ''0''"
    using Suc by (simp add: replicate_append_same)
  finally show ?case .
qed

lemma digit_char_pos: "0 < n \<Longrightarrow> n < 10 \<Longrightarrow> digit_char n \<noteq> CHR ''0''"
proof -
  assume "0 < n" "n < 10"
  then have "n \<in> {1, 2, 3, 4, 5, 6, 7, 8, 9}" by auto
  then show ?thesis by (auto simp: digit_char_def)
qed

lemma digits_hd: "0 < n \<Longrightarrow> hd (digits n) \<noteq> CHR ''0''"
proof (induction n rule: digits.induct)
  case (1 n)
  show ?case
  proof (cases "n < 10")
    case True
    with 1 show ?thesis by (subst digits.simps) (simp add: digit_char_pos)
  next
    case False
    then have "0 < n div 10" by simp
    with 1 False have "hd (digits (n div 10)) \<noteq> CHR ''0''" by simp
    with False show ?thesis
      by (subst digits.simps) (simp add: digits_nonempty)
  qed
qed

lemma trimZeros_id: "s \<noteq> [] \<Longrightarrow> hd s \<noteq> CHR ''0'' \<Longrightarrow> trimZeros s = s"
  by (cases s rule: trimZeros.cases) auto

lemma trimZeros_zeros_point:
  "trimZeros (replicate (Suc n) CHR ''0'' @ CHR ''.'' # r) = CHR ''0'' # CHR ''.'' # r"
  by (induction n) auto

lemma padZeros_zeros:
  "\<exists>m. padZeros d (replicate j CHR ''0'') = replicate m CHR ''0'' \<and> d < m"
proof (induction "Suc d - j" arbitrary: j rule: less_induct)
  case less
  show ?case
  proof (cases "j \<le> d")
    case True
    have "''0000'' @ replicate j CHR ''0'' = replicate (j + 4) CHR ''0''"
      by (simp add: numeral_eq_Suc replicate_append_same)
    moreover from True have "Suc d - (j + 4) < Suc d - j" by simp
    ultimately show ?thesis
      using less [of "j + 4"] True by (subst padZeros.simps) simp
  next
    case False
    then show ?thesis by (subst padZeros.simps) auto
  qed
qed

lemma fixedToString_nat:
  "fixedToString (int n) unit =
     (if unit = 0 then digits n
      else trimFraction (trimZeros
             (take (length (padZeros unit (digits n)) - unit) (padZeros unit (digits n)) @ ''.'' @
              drop (length (padZeros unit (digits n)) - unit) (padZeros unit (digits n)))))"
  by (simp add: fixedToString_def Let_def)

lemma fixedToString_scaled:
  "fixedToString (int (10 ^ d * k)) d = (if d = 0 then digits k else digits k @ ''.0'')"
proof (cases "d = 0")
  case True
  then show ?thesis by (subst fixedToString_nat) simp
next
  case False
  then obtain n where d: "d = Suc n" by (cases d) auto
  have zeros: "trimFraction (s @ CHR ''.'' # replicate d CHR ''0'') = s @ ''.0''" for s
    unfolding trimFraction_def d
    using trimZeros_zeros_point [of n "rev s"] by (simp add: replicate_app_Cons_same)
  show ?thesis
  proof (cases "k = 0")
    case True
    obtain m where m: "padZeros d ''0'' = replicate m CHR ''0''" "d < m"
      using padZeros_zeros [of d 1] by auto
    then obtain i where i: "m - d = Suc i" by (cases "m - d") auto
    have zero: "digits 0 = ''0''"
      by (subst digits.simps) (simp add: digit_char_0)
    have e1: "fixedToString (int (10 ^ d * k)) d =
        trimFraction (trimZeros (take (m - d) (replicate m CHR ''0'') @ ''.'' @
          drop (m - d) (replicate m CHR ''0'')))"
      using True False m(1) zero by (subst fixedToString_nat) simp
    have e2: "take (m - d) (replicate m CHR ''0'') @ ''.'' @ drop (m - d) (replicate m CHR ''0'') =
        replicate (Suc i) CHR ''0'' @ CHR ''.'' # replicate d CHR ''0''"
      using m(2) by (simp add: i [symmetric] min_def)
    show ?thesis
      unfolding e1 e2 trimZeros_zeros_point
      using zeros [of "''0''"] zero True False by simp
  next
    case pos: False
    then have k: "0 < k" by simp
    have len: "\<not> length (digits k @ replicate d CHR ''0'') \<le> d"
      using digits_nonempty [of k] by (cases "digits k") auto
    have pad: "padZeros d (digits k @ replicate d CHR ''0'') = digits k @ replicate d CHR ''0''"
      using len by (subst padZeros.simps) simp
    have trim: "trimZeros (digits k @ CHR ''.'' # replicate d CHR ''0'') =
        digits k @ CHR ''.'' # replicate d CHR ''0''"
      using digits_nonempty [of k] digits_hd [OF k] by (intro trimZeros_id) auto
    from False k pad trim zeros [of "digits k"] show ?thesis
      by (subst fixedToString_nat) (simp add: digits_pow10)
  qed
qed

lemma formatUnits_Inr: "formatUnits val unit = Inr s \<Longrightarrow> s = fixedToString val unit"
  by (auto simp: formatUnits_def split: if_splits)

lemma formatEther_formatUnits:
  "inRange512 wei \<Longrightarrow> formatUnits wei 18 = Inr (formatEther wei)"
  by (simp add: formatUnits_def formatEther_def)

lemma formatEther_one: "formatEther 1000000000000000000 = ''1.0''"
  using fixedToString_scaled [of 18 1] by (simp add: formatEther_def digits.simps digit_char_def)

subsection \<open>The loop of the decoder\<close>

lemma pushes_decodes: "pushes e st log \<Longrightarrow> decodes e log"
  by (simp add: pushes_def)

lemma decodes_isTransferLog: "decodes e log \<Longrightarrow> isTransferLog log"
  by (simp add: decodes_def)

lemma not_isl_Inr: "(\<not> isl x) = (\<exists>v. x = Inr v)"
  by (cases x) auto

lemma decodes_parts:
  assumes "decodes e log"
  obtains topic1 topic2 src dst val where
      "isTransferLog log" "at_index (topics log) 1 = Some topic1"
      "at_index (topics log) 2 = Some topic2"
      "getAddress e (''0x'' @ drop 26 topic1) = Inr src"
      "getAddress e (''0x'' @ drop 26 topic2) = Inr dst"
      "BigInt e (data log) = Inr val"
  using assms by (auto simp: decodes_def not_isl_Inr split: option.splits)

lemma parseLog_pushes:
  assumes "pushes e st log"
  shows "\<exists>t. parseLog e st log = (Inr (Some t), stateAfter e st log) \<and> decodedFrom e t log"
proof -
  from assms have d: "decodes e log" by (rule pushes_decodes)
  then obtain topic1 topic2 src dst val where parts:
      "isTransferLog log" "at_index (topics log) 1 = Some topic1"
      "at_index (topics log) 2 = Some topic2"
      "getAddress e (''0x'' @ drop 26 topic1) = Inr src"
      "getAddress e (''0x'' @ drop 26 topic2) = Inr dst"
      "BigInt e (data log) = Inr val"
    by (rule decodes_parts)
  obtain info st' where tok: "getTokenInfo e st (log_address log) = (info, st')"
    by (cases "getTokenInfo e st (log_address log)")
  from assms parts(6) tok have "decimals info \<le> 80" "inRange512 val"
    by (simp_all add: pushes_def)
  then have fmt: "formatUnits val (decimals info) = Inr (fixedToString val (decimals info))"
    by (simp add: formatUnits_def)
  from parts tok fmt d show ?thesis
    by (simp add: parseLog_def stateAfter_def decodedFrom_def)
qed

lemma parseLog_not_pushes:
  assumes "\<not> pushes e st log"
  shows "(\<forall>t. fst (parseLog e st log) \<noteq> Inr (Some t))
     \<and> snd (parseLog e st log) = stateAfter e st log"
proof (cases "decodes e log")
  case False
  then show ?thesis
    by (auto simp: decodes_def stateAfter_def parseLog_def
        split: option.splits sum.splits prod.splits)
next
  case True
  then obtain topic1 topic2 src dst val where parts:
      "isTransferLog log" "at_index (topics log) 1 = Some topic1"
      "at_index (topics log) 2 = Some topic2"
      "getAddress e (''0x'' @ drop 26 topic1) = Inr src"
      "getAddress e (''0x'' @ drop 26 topic2) = Inr dst"
      "BigInt e (data log) = Inr val"
    by (rule decodes_parts)
  obtain info st' where tok: "getTokenInfo e st (log_address log) = (info, st')"
    by (cases "getTokenInfo e st (log_address log)")
  from assms True parts(6) tok have "\<not> (decimals info \<le> 80 \<and> inRange512 val)"
    by (simp add: pushes_def)
  then have "isl (formatUnits val (decimals info))"
    by (auto simp: formatUnits_def)
  then obtain err where "formatUnits val (decimals info) = Inl err"
    by (cases "formatUnits val (decimals info)") auto
  with parts tok True show ?thesis
    by (simp add: parseLog_def stateAfter_def)
qed

lemma parseLoop_skip:
  assumes "\<forall>t. fst (parseLog e st log) \<noteq> Inr (Some t)"
  shows "parseLoop e (log # rest) acc st = parseLoop e rest acc (snd (parseLog e st log))"
proof (cases "parseLog e st log")
  case (Pair r st')
  with assms show ?thesis
    by (cases r) (auto split: option.splits)
qed

lemma parseLoop_kept:
  "\<exists>new. fst (parseLoop e ls acc st) = acc @ new
     \<and> list_all2 (decodedFrom e) new (keptLogs e st ls)"
proof (induction ls arbitrary: acc st)
  case Nil
  then show ?case by simp
next
  case (Cons log ls)
  show ?case
  proof (cases "pushes e st log")
    case True
    from parseLog_pushes [OF True] obtain t
      where t: "parseLog e st log = (Inr (Some t), stateAfter e st log)" "decodedFrom e t log"
      by blast
    from Cons [of "acc @ [t]" "stateAfter e st log"] obtain new
      where "fst (parseLoop e ls (acc @ [t]) (stateAfter e st log)) = (acc @ [t]) @ new"
        "list_all2 (decodedFrom e) new (keptLogs e (stateAfter e st log) ls)" by blast
    with t True show ?thesis by (intro exI [of _ "t # new"]) simp
  next
    case False
    from parseLog_not_pushes [OF False]
    have skip: "\<forall>t. fst (parseLog e st log) \<noteq> Inr (Some t)"
      and after: "snd (parseLog e st log) = stateAfter e st log" by simp_all
    have step: "parseLoop e (log # ls) acc st = parseLoop e ls acc (stateAfter e st log)"
      by (simp only: parseLoop_skip [OF skip] after)
    show ?thesis
      unfolding step using Cons [of acc "stateAfter e st log"] False by simp
  qed
qed

lemma keptLogs_subseq: "subseq (keptLogs e st ls) (filter (decodes e) ls)"
  by (induction ls arbitrary: st) (auto dest: pushes_decodes)

lemma filter_decodes_subseq: "subseq (filter (decodes e) ls) (filter isTransferLog ls)"
  by (induction ls) (auto dest: decodes_isTransferLog)

lemma parseLog_transfer:
  assumes "parseLog e st log = (Inr (Some t), st')"
  shows "BigInt e (data log) = Inr (rawValue t)
     \<and> transfer_decimals t = decimals (fst (getTokenInfo e st (log_address log)))
     \<and> formatUnits (rawValue t) (transfer_decimals t) = Inr (valueFormatted t)"
proof (cases "pushes e st log")
  case True
  from parseLog_pushes [OF True] assms have "decodedFrom e t log" by auto
  moreover from assms have
    "transfer_decimals t = decimals (fst (getTokenInfo e st (log_address log)))"
    by (auto simp: parseLog_def split: if_splits option.splits sum.splits prod.splits)
  ultimately show ?thesis by (simp add: decodedFrom_def)
next
  case False
  from parseLog_not_pushes [OF False] assms show ?thesis by simp
qed

subsection \<open>Logs that differ in their amounts\<close>








section \<open>Failed and missing reads\<close>

text \<open>
  Claim C1, as the code has it. When the read of the transaction or of the receipt fails,
  or one of them is not found, \<^verbatim>\<open>analyzeTransaction\<close> returns \<^verbatim>\<open>null\<close> and leaves the
  state alone: the value it also returns for a transaction that was found and has
  nothing to report.
\<close>

theorem analyzeTransaction_failure_is_null:
  assumes "isl (getTransaction e txHash) \<or> isl (getTransactionReceipt e txHash)
     \<or> getTransaction e txHash = Inr None \<or> getTransactionReceipt e txHash = Inr None"
  shows "analyzeTransaction e st txHash walletAddress = (None, st)"
  using assms
  by (cases "getTransaction e txHash"; cases "getTransactionReceipt e txHash")
     (auto simp: analyzeTransaction_def split: option.splits)

theorem analyzeTransaction_failure_is_null_witness:
  "isl (getTransactionReceipt mock_env ''0xdown'')
   \<and> analyzeTransaction mock_env st0 ''0xdown'' walletX = (None, st0)
   \<and> getTransaction mock_env ''0xmissing'' = Inr None
   \<and> analyzeTransaction mock_env st0 ''0xmissing'' walletX = (None, st0)"
proof -
  have down: "isl (getTransactionReceipt mock_env ''0xdown'')"
    by (simp add: mock_env_def)
  have missing: "getTransaction mock_env ''0xmissing'' = Inr None"
    by (simp add: mock_env_def)
  from down have "isl (getTransaction mock_env ''0xdown'') \<or> isl (getTransactionReceipt mock_env ''0xdown'')
     \<or> getTransaction mock_env ''0xdown'' = Inr None \<or> getTransactionReceipt mock_env ''0xdown'' = Inr None"
    by simp
  from analyzeTransaction_failure_is_null [OF this, of st0 walletX]
  have a: "analyzeTransaction mock_env st0 ''0xdown'' walletX = (None, st0)" .
  from missing have "isl (getTransaction mock_env ''0xmissing'') \<or> isl (getTransactionReceipt mock_env ''0xmissing'')
     \<or> getTransaction mock_env ''0xmissing'' = Inr None \<or> getTransactionReceipt mock_env ''0xmissing'' = Inr None"
    by simp
  from analyzeTransaction_failure_is_null [OF this, of st0 walletX]
  have b: "analyzeTransaction mock_env st0 ''0xmissing'' walletX = (None, st0)" .
  from down missing a b show ?thesis by simp
qed

text \<open>
  Claim C1 as stated fails: a node out of reach, a transaction that is not found and a
  plain send that was found all give \<^verbatim>\<open>null\<close>; the caller cannot tell them apart.
\<close>

theorem analyzeTransaction_null_counterexample:
  "getTransaction mock_env ''0xdown'' = Inl NetworkError
   \<and> fst (analyzeTransaction mock_env st0 ''0xdown'' walletX) = None
   \<and> getTransaction mock_env ''0xmissing'' = Inr None
   \<and> fst (analyzeTransaction mock_env st0 ''0xmissing'' walletX) = None
   \<and> getTransaction mock_env ''0xplain'' = Inr (Some plainTx)
   \<and> getTransactionReceipt mock_env ''0xplain'' = Inr (Some plainReceipt)
   \<and> fst (analyzeTransaction mock_env st0 ''0xplain'' walletX) = None"
  by (simp add: analyzeTransaction_def mock_env_def detectSwap_def parseTransferEvents_def
      classify_def plainReceipt_def)

section \<open>The summary formatter\<close>

text \<open>
  Claim C2. For every analysis that is not \<^verbatim>\<open>null\<close> and whose type is none of BUY,
  SELL and SWAP, the formatter returns \<^verbatim>\<open>null\<close> (\<open>Inr None\<close>: a normal return, not an
  error).
\<close>

theorem formatTransactionSummary_other:
  "type a \<noteq> ''BUY'' \<Longrightarrow> type a \<noteq> ''SELL'' \<Longrightarrow> type a \<noteq> ''SWAP'' \<Longrightarrow>
     formatTransactionSummary ops (Some a) walletLabel = Inr None"
  by (simp add: formatTransactionSummary_def Let_def)

theorem formatTransactionSummary_other_witness:
  "type transferAnalysis = ''TRANSFER''
   \<and> formatTransactionSummary text_ops (Some transferAnalysis) (Some ''0xABCD...EF01'') = Inr None"
proof -
  have t: "type transferAnalysis = ''TRANSFER''"
    by (simp add: transferAnalysis_def)
  have "type transferAnalysis \<noteq> ''BUY''" "type transferAnalysis \<noteq> ''SELL''"
       "type transferAnalysis \<noteq> ''SWAP''"
    by (simp_all add: t)
  from formatTransactionSummary_other [OF this] t show ?thesis by simp
qed

text \<open>
  Claim C10. For the absent analysis (\<^verbatim>\<open>null\<close>) the formatter returns the string
  "Unable to analyze transaction", not \<^verbatim>\<open>null\<close>.
\<close>

theorem formatTransactionSummary_null:
  "formatTransactionSummary ops None walletLabel = Inr (Some ''Unable to analyze transaction'')"
  by (simp add: formatTransactionSummary_def)

section \<open>The classifier\<close>

text \<open>
  Claim C3. When the receipt decodes to fewer than two transfers (none, or exactly one),
  \<^verbatim>\<open>detectSwap\<close> returns \<^verbatim>\<open>null\<close>, whoever the parties of the transfer are.
\<close>

theorem detectSwap_few_transfers:
  "length (fst (parseTransferEvents e st rcpt)) < 2 \<Longrightarrow>
     fst (detectSwap e st tx rcpt walletAddress) = None"
  by (cases "parseTransferEvents e st rcpt") (simp add: detectSwap_def classify_def)

theorem detectSwap_few_transfers_witness:
  "length (fst (parseTransferEvents mock_env st0 singleReceipt)) = 1
   \<and> map to' (fst (parseTransferEvents mock_env st0 singleReceipt)) = [toLowerCase walletX]
   \<and> fst (detectSwap mock_env st0 buyTx singleReceipt walletX) = None"
proof -
  have one: "length (fst (parseTransferEvents mock_env st0 singleReceipt)) = 1"
    by (simp add: single_transfers)
  then have "length (fst (parseTransferEvents mock_env st0 singleReceipt)) < 2"
    by simp
  from detectSwap_few_transfers [OF this] one show ?thesis
    by (simp add: single_transfers)
qed

text \<open>
  Claim C4. With at least two decoded transfers, some sent by the wallet and some received
  by it (addresses compared in lower case), \<^verbatim>\<open>detectSwap\<close> returns a SWAP whose
  \<open>tokenIn\<close> is the first transfer of the log order sent by the wallet and whose
  \<open>tokenOut\<close> is the first one received by it.
\<close>

theorem detectSwap_swap:
  assumes "parseTransferEvents e st rcpt = (transfers, st')"
    and "2 \<le> length transfers"
    and "filter (sentBy (toLowerCase walletAddress)) transfers \<noteq> []"
    and "filter (receivedBy (toLowerCase walletAddress)) transfers \<noteq> []"
  shows "\<exists>sw. detectSwap e st tx rcpt walletAddress = (Some sw, st') \<and> type sw = ''SWAP''
     \<and> tokenIn sw = find (sentBy (toLowerCase walletAddress)) transfers
     \<and> tokenOut sw = find (receivedBy (toLowerCase walletAddress)) transfers
     \<and> dex sw = dexOf tx \<and> allTransfers sw = transfers"
  using assms by (simp add: detectSwap_def classify_def Let_def find_filter)

theorem detectSwap_swap_witness:
  "\<exists>sw. fst (detectSwap mock_env st0 swapTx swapReceipt walletX) = Some sw
     \<and> type sw = ''SWAP'' \<and> dex sw = ''BaseSwap''
     \<and> map_option tokenAddress (tokenIn sw) = Some tokenA
     \<and> map_option valueFormatted (tokenIn sw) = Some ''1.0''
     \<and> map_option tokenAddress (tokenOut sw) = Some tokenB
     \<and> map_option valueFormatted (tokenOut sw) = Some ''500.0''"
proof -
  let ?ts = "fst (parseTransferEvents mock_env st0 swapReceipt)"
  have run: "parseTransferEvents mock_env st0 swapReceipt =
      (?ts, snd (parseTransferEvents mock_env st0 swapReceipt))"
    by simp
  have two: "2 \<le> length ?ts"
    by (simp add: swap_transfers)
  have sent: "filter (sentBy (toLowerCase walletX)) ?ts \<noteq> []"
    by (simp add: swap_transfers sentBy_def toLowerCase_idem)
  have received: "filter (receivedBy (toLowerCase walletX)) ?ts \<noteq> []"
    by (simp add: swap_transfers receivedBy_def toLowerCase_idem)
  from detectSwap_swap [OF run two sent received, of swapTx]
  obtain sw where sw: "detectSwap mock_env st0 swapTx swapReceipt walletX =
        (Some sw, snd (parseTransferEvents mock_env st0 swapReceipt))"
      "type sw = ''SWAP''"
      "tokenIn sw = find (sentBy (toLowerCase walletX)) ?ts"
      "tokenOut sw = find (receivedBy (toLowerCase walletX)) ?ts"
      "dex sw = dexOf swapTx"
    by blast
  have tin: "map_option tokenAddress (tokenIn sw) = Some tokenA"
            "map_option valueFormatted (tokenIn sw) = Some ''1.0''"
    by (simp_all add: sw(3) swap_transfers sentBy_def toLowerCase_idem)
  have tout: "map_option tokenAddress (tokenOut sw) = Some tokenB"
             "map_option valueFormatted (tokenOut sw) = Some ''500.0''"
    by (simp_all add: sw(4) swap_transfers receivedBy_def lower_walletX lower_walletX_again lower_routerX)
  from sw tin tout show ?thesis by (simp add: dexOf_swapTx)
qed

text \<open>
  Claim C5. With at least two decoded transfers and the wallet on one side only:
  when it only sends, \<^verbatim>\<open>detectSwap\<close> returns a SELL whose \<open>tokenSold\<close> is the first
  transfer sent by the wallet and whose \<open>ethReceived\<close> is read from the value of the
  transaction; when it only receives, a BUY whose \<open>tokenBought\<close> is the first transfer
  received and whose \<open>ethSpent\<close> is read from the value of the transaction. The value is
  printed in ether, and as "0" when it is zero.
\<close>

theorem detectSwap_one_sided:
  assumes "parseTransferEvents e st rcpt = (transfers, st')"
    and "2 \<le> length transfers"
  shows "(filter (sentBy (toLowerCase walletAddress)) transfers \<noteq> [] \<and>
          filter (receivedBy (toLowerCase walletAddress)) transfers = [] \<longrightarrow>
          (\<exists>sw. detectSwap e st tx rcpt walletAddress = (Some sw, st') \<and> type sw = ''SELL''
             \<and> tokenSold sw = find (sentBy (toLowerCase walletAddress)) transfers
             \<and> ethReceived sw =
                 Some (if tx_value tx \<noteq> 0 then formatEther (tx_value tx) else ''0'')))
      \<and> (filter (sentBy (toLowerCase walletAddress)) transfers = [] \<and>
          filter (receivedBy (toLowerCase walletAddress)) transfers \<noteq> [] \<longrightarrow>
          (\<exists>sw. detectSwap e st tx rcpt walletAddress = (Some sw, st') \<and> type sw = ''BUY''
             \<and> tokenBought sw = find (receivedBy (toLowerCase walletAddress)) transfers
             \<and> ethSpent sw =
                 Some (if tx_value tx \<noteq> 0 then formatEther (tx_value tx) else ''0'')))"
  using assms by (simp add: detectSwap_def classify_def Let_def find_filter ethChangeOf_def)

theorem detectSwap_one_sided_witness:
  "(\<exists>sw. fst (detectSwap mock_env st0 swapTx sellReceipt walletX) = Some sw
      \<and> type sw = ''SELL'' \<and> map_option tokenAddress (tokenSold sw) = Some tokenA
      \<and> ethReceived sw = Some ''0'')
   \<and> (\<exists>sw. fst (detectSwap mock_env st0 buyTx buyReceipt walletX) = Some sw
      \<and> type sw = ''BUY'' \<and> map_option tokenAddress (tokenBought sw) = Some tokenB
      \<and> ethSpent sw = Some ''1.0'')"
proof
  let ?ts = "fst (parseTransferEvents mock_env st0 sellReceipt)"
  have run: "parseTransferEvents mock_env st0 sellReceipt =
      (?ts, snd (parseTransferEvents mock_env st0 sellReceipt))"
    by simp
  have two: "2 \<le> length ?ts"
    by (simp add: sell_transfers)
  have sides: "filter (sentBy (toLowerCase walletX)) ?ts \<noteq> [] \<and>
      filter (receivedBy (toLowerCase walletX)) ?ts = []"
    by (simp add: sell_transfers sentBy_def receivedBy_def lower_examples)
  from detectSwap_one_sided [OF run two, of walletX swapTx] sides
  obtain sw where sw: "detectSwap mock_env st0 swapTx sellReceipt walletX =
        (Some sw, snd (parseTransferEvents mock_env st0 sellReceipt))"
      "type sw = ''SELL''"
      "tokenSold sw = find (sentBy (toLowerCase walletX)) ?ts"
      "ethReceived sw = Some (if tx_value swapTx \<noteq> 0 then formatEther (tx_value swapTx) else ''0'')"
    by blast
  have "map_option tokenAddress (tokenSold sw) = Some tokenA"
    by (simp add: sw(3) sell_transfers sentBy_def lower_examples)
  moreover have "ethReceived sw = Some ''0''"
    by (simp add: sw(4) swapTx_def)
  ultimately show "\<exists>sw. fst (detectSwap mock_env st0 swapTx sellReceipt walletX) = Some sw
      \<and> type sw = ''SELL'' \<and> map_option tokenAddress (tokenSold sw) = Some tokenA
      \<and> ethReceived sw = Some ''0''"
    using sw(1,2) by simp
next
  let ?ts = "fst (parseTransferEvents mock_env st0 buyReceipt)"
  have run: "parseTransferEvents mock_env st0 buyReceipt =
      (?ts, snd (parseTransferEvents mock_env st0 buyReceipt))"
    by simp
  have two: "2 \<le> length ?ts"
    by (simp add: buy_transfers)
  have sides: "filter (sentBy (toLowerCase walletX)) ?ts = [] \<and>
      filter (receivedBy (toLowerCase walletX)) ?ts \<noteq> []"
    by (simp add: buy_transfers sentBy_def receivedBy_def lower_examples)
  from detectSwap_one_sided [OF run two, of walletX buyTx] sides
  obtain sw where sw: "detectSwap mock_env st0 buyTx buyReceipt walletX =
        (Some sw, snd (parseTransferEvents mock_env st0 buyReceipt))"
      "type sw = ''BUY''"
      "tokenBought sw = find (receivedBy (toLowerCase walletX)) ?ts"
      "ethSpent sw = Some (if tx_value buyTx \<noteq> 0 then formatEther (tx_value buyTx) else ''0'')"
    by blast
  have "map_option tokenAddress (tokenBought sw) = Some tokenB"
    by (simp add: sw(3) buy_transfers receivedBy_def lower_examples)
  moreover have "ethSpent sw = Some ''1.0''"
    by (simp add: sw(4) buyTx_def formatEther_one)
  ultimately show "\<exists>sw. fst (detectSwap mock_env st0 buyTx buyReceipt walletX) = Some sw
      \<and> type sw = ''BUY'' \<and> map_option tokenAddress (tokenBought sw) = Some tokenB
      \<and> ethSpent sw = Some ''1.0''"
    using sw(1,2) by simp
qed




section \<open>The transfer decoder\<close>

text \<open>
  Claim C6, as the code has it. \<^verbatim>\<open>parseTransferEvents\<close> returns for every list of logs
  (no step of it throws past the \<^verbatim>\<open>catch\<close> of the loop). It skips every log without the
  Transfer signature, and every log with the signature on which a step of the body
  throws: a missing topic, an address \<^verbatim>\<open>getAddress\<close> refuses, data \<^verbatim>\<open>BigInt\<close> cannot
  read, or an amount \<^verbatim>\<open>formatUnits\<close> cannot print (a token of more than 80 decimals, an
  amount outside the signed range of 512 bits). It returns one transfer for each of the
  other logs (\<open>keptLogs\<close>), in log order, carrying the token, parties and amount of its
  log. The length of the result is the number of these logs, which is at most the number
  of logs that decode, itself at most the number of logs with the signature.
\<close>

theorem parseTransferEvents_decoded:
  "list_all2 (decodedFrom e) (fst (parseTransferEvents e st rcpt)) (keptLogs e st (logs rcpt))
   \<and> length (fst (parseTransferEvents e st rcpt)) = length (keptLogs e st (logs rcpt))
   \<and> subseq (keptLogs e st (logs rcpt)) (filter isTransferLog (logs rcpt))
   \<and> length (fst (parseTransferEvents e st rcpt)) \<le> length (filter (decodes e) (logs rcpt))
   \<and> length (filter (decodes e) (logs rcpt)) \<le> length (filter isTransferLog (logs rcpt))"
proof -
  from parseLoop_kept [of e "logs rcpt" "[]" st]
  have rel: "list_all2 (decodedFrom e) (fst (parseTransferEvents e st rcpt))
      (keptLogs e st (logs rcpt))"
    by (auto simp: parseTransferEvents_def)
  then have len: "length (fst (parseTransferEvents e st rcpt)) = length (keptLogs e st (logs rcpt))"
    by (rule list_all2_lengthD)
  have sub: "subseq (keptLogs e st (logs rcpt)) (filter isTransferLog (logs rcpt))"
    using keptLogs_subseq filter_decodes_subseq by (rule subseq_order.trans)
  have "length (keptLogs e st (logs rcpt)) \<le> length (filter (decodes e) (logs rcpt))"
    using keptLogs_subseq by (rule list_emb_length)
  moreover have "length (filter (decodes e) (logs rcpt)) \<le> length (filter isTransferLog (logs rcpt))"
    using filter_decodes_subseq by (rule list_emb_length)
  ultimately show ?thesis using rel len sub by simp
qed

theorem parseTransferEvents_decoded_witness:
  "length (logs swapReceiptHuge) = 3
   \<and> length (filter (decodes mock_env) (logs swapReceiptHuge)) = 2
   \<and> keptLogs mock_env st0 (logs swapReceiptHuge) =
       [transferLog tokenB routerX (toLowerCase walletX) fiveHundred]
   \<and> length (fst (parseTransferEvents mock_env st0 swapReceiptHuge)) = 1
   \<and> map tokenAddress (fst (parseTransferEvents mock_env st0 swapReceiptHuge)) = [tokenB]"
proof -
  have n: "length (filter (decodes mock_env) (logs swapReceiptHuge)) = 2"
    by (simp add: swapReceiptHuge_def decodes_def isTransferLog_def at_index_def
        transferLog_def addressTopic_def mock_env_def transferTopic_def
        lower_walletX routerX_def)
  have kept: "keptLogs mock_env st0 (logs swapReceiptHuge) =
       [transferLog tokenB routerX (toLowerCase walletX) fiveHundred]"
    by (simp add: swapReceiptHuge_def pushes_def stateAfter_def decodes_def isTransferLog_def
        at_index_def transferLog_def addressTopic_def mock_env_def transferTopic_def
        lower_walletX routerX_def tokenA_def tokenB_def getTokenInfo_def st0_def
        inRange512_def oneEther_def fiveHundred_def hugeAmount_def Let_def)
  from parseTransferEvents_decoded [of mock_env st0 swapReceiptHuge] kept
  have "length (fst (parseTransferEvents mock_env st0 swapReceiptHuge)) = 1" by simp
  with n kept show ?thesis by (simp add: huge_transfers) (simp add: swapReceiptHuge_def)
qed

text \<open>
  Claim C6 as stated fails: the Transfer log of a non-fungible token has the signature,
  its empty data makes \<^verbatim>\<open>BigInt\<close> throw, and the log is skipped. One log has the
  signature, the result is empty.
\<close>

theorem parseTransferEvents_length_counterexample:
  "length (filter isTransferLog (logs nftReceipt)) = 1
   \<and> length (fst (parseTransferEvents mock_env st0 nftReceipt)) = 0"
  by (simp add: nft_transfers) (simp add: nftReceipt_def isTransferLog_def at_index_def)

text \<open>
  Claim C8. Take a log whose amount is \<open>10^d * k\<close>, of a token that resolves to \<open>d\<close>
  decimals, \<open>d\<close> one of 0, 6, 8 and 18, for any natural number \<open>k\<close>. Every transfer the
  decoder builds from that log has this raw amount, these decimals, and as scaled value
  the decimal string of \<open>k\<close> itself: the digits of \<open>k\<close>, followed by ".0" when the token has
  decimals. No digit is lost, whatever the size of \<open>k\<close>. The decoder does build the
  transfer when the log decodes and the amount is below \<open>2^511\<close>, as every amount of 256
  bits is.
\<close>

theorem parseLog_scaled_value:
  assumes "BigInt e (data log) = Inr (int (10 ^ d * k))"
    and "decimals (fst (getTokenInfo e st (log_address log))) = d"
    and "d \<in> {0, 6, 8, 18}"
  shows "(decodes e log \<and> int (10 ^ d * k) < 2 ^ 511 \<longrightarrow>
            (\<exists>t. parseLog e st log = (Inr (Some t), snd (getTokenInfo e st (log_address log)))))
     \<and> (\<forall>t st'. parseLog e st log = (Inr (Some t), st') \<longrightarrow>
            rawValue t = int (10 ^ d * k) \<and> transfer_decimals t = d
            \<and> valueFormatted t = (if d = 0 then digits k else digits k @ ''.0''))"
proof (intro conjI impI allI)
  assume a: "decodes e log \<and> int (10 ^ d * k) < 2 ^ 511"
  have "- (2 ^ 511) \<le> (0::int)" by simp
  also have "0 \<le> int (10 ^ d * k)" by simp
  finally have "inRange512 (int (10 ^ d * k))"
    using a by (simp add: inRange512_def)
  moreover from assms(3) have "d \<le> 80" by auto
  ultimately have "pushes e st log"
    using a assms(1,2) by (simp add: pushes_def)
  from parseLog_pushes [OF this] a
  show "\<exists>t. parseLog e st log = (Inr (Some t), snd (getTokenInfo e st (log_address log)))"
    by (auto simp: stateAfter_def)
next
  fix t st'
  assume p: "parseLog e st log = (Inr (Some t), st')"
  note tr = parseLog_transfer [OF p]
  from tr have b: "BigInt e (data log) = Inr (rawValue t)"
    by blast
  from tr have dec0: "transfer_decimals t = decimals (fst (getTokenInfo e st (log_address log)))"
    by blast
  from tr have f: "formatUnits (rawValue t) (transfer_decimals t) = Inr (valueFormatted t)"
    by blast
  from b assms(1) have raw: "rawValue t = int (10 ^ d * k)" by simp
  from dec0 assms(2) have dec: "transfer_decimals t = d" by simp
  from f have fmt: "formatUnits (int (10 ^ d * k)) d = Inr (valueFormatted t)"
    unfolding raw dec .
  from formatUnits_Inr [OF fmt] fixedToString_scaled [of d k]
  have "valueFormatted t = (if d = 0 then digits k else digits k @ ''.0'')" by simp
  with raw dec
  show "rawValue t = int (10 ^ d * k)" "transfer_decimals t = d"
    "valueFormatted t = (if d = 0 then digits k else digits k @ ''.0'')"
    by simp_all
qed

theorem parseLog_scaled_value_witness:
  "(\<exists>t st'. parseLog mock_env st0 (transferLog tokenB routerX (toLowerCase walletX) fiveHundred) =
        (Inr (Some t), st')
      \<and> transfer_decimals t = 6 \<and> rawValue t = 500 * 10 ^ 6 \<and> valueFormatted t = ''500.0'')
   \<and> (\<exists>t st'. parseLog mock_env st0 (transferLog tokenA (toLowerCase walletX) routerX oneEther) =
        (Inr (Some t), st')
      \<and> transfer_decimals t = 18 \<and> rawValue t = 1 * 10 ^ 18 \<and> valueFormatted t = ''1.0'')"
proof
  let ?log = "transferLog tokenB routerX (toLowerCase walletX) fiveHundred"
  have amount: "BigInt mock_env (data ?log) = Inr (int (10 ^ 6 * 500))"
    by (simp add: mock_env_def transferLog_def oneEther_def fiveHundred_def)
  have dec: "decimals (fst (getTokenInfo mock_env st0 (log_address ?log))) = 6"
    by (simp add: transferLog_def decimals_tokenB)
  have d: "(6::nat) \<in> {0, 6, 8, 18}" by simp
  have ok: "decodes mock_env ?log \<and> int (10 ^ 6 * 500) < 2 ^ 511"
    by (simp add: decodes_def isTransferLog_def at_index_def transferLog_def addressTopic_def
        mock_env_def transferTopic_def lower_walletX routerX_def oneEther_def fiveHundred_def)
  from parseLog_scaled_value [OF amount dec d] ok
  obtain t where t: "parseLog mock_env st0 ?log =
      (Inr (Some t), snd (getTokenInfo mock_env st0 (log_address ?log)))"
    by blast
  with parseLog_scaled_value [OF amount dec d]
  have "rawValue t = int (10 ^ 6 * 500)" "transfer_decimals t = 6"
    "valueFormatted t = digits 500 @ ''.0''"
    by simp_all
  moreover have "digits 500 = ''500''"
    by (simp add: digits.simps digit_char_def)
  ultimately show "\<exists>t st'. parseLog mock_env st0 ?log = (Inr (Some t), st')
      \<and> transfer_decimals t = 6 \<and> rawValue t = 500 * 10 ^ 6 \<and> valueFormatted t = ''500.0''"
    using t by auto
next
  let ?log = "transferLog tokenA (toLowerCase walletX) routerX oneEther"
  have amount: "BigInt mock_env (data ?log) = Inr (int (10 ^ 18 * 1))"
    by (simp add: mock_env_def transferLog_def oneEther_def)
  have dec: "decimals (fst (getTokenInfo mock_env st0 (log_address ?log))) = 18"
    by (simp add: transferLog_def decimals_tokenA)
  have d: "(18::nat) \<in> {0, 6, 8, 18}" by simp
  have ok: "decodes mock_env ?log \<and> int (10 ^ 18 * 1) < 2 ^ 511"
    by (simp add: decodes_def isTransferLog_def at_index_def transferLog_def addressTopic_def
        mock_env_def transferTopic_def lower_walletX routerX_def oneEther_def)
  from parseLog_scaled_value [OF amount dec d] ok
  obtain t where t: "parseLog mock_env st0 ?log =
      (Inr (Some t), snd (getTokenInfo mock_env st0 (log_address ?log)))"
    by blast
  with parseLog_scaled_value [OF amount dec d]
  have "rawValue t = int (10 ^ 18 * 1)" "transfer_decimals t = 18"
    "valueFormatted t = digits 1 @ ''.0''"
    by simp_all
  moreover have "digits 1 = ''1''"
    by (simp add: digits.simps digit_char_def)
  ultimately show "\<exists>t st'. parseLog mock_env st0 ?log = (Inr (Some t), st')
      \<and> transfer_decimals t = 18 \<and> rawValue t = 1 * 10 ^ 18 \<and> valueFormatted t = ''1.0''"
    using t by auto
qed

section \<open>Token metadata is resolved once\<close>

text \<open>
  Claim C7. For every token address, a second call of \<^verbatim>\<open>getTokenInfo\<close> right after a
  first one returns the same token information and makes no read of the symbol, name or
  decimals collaborator: the call count and the whole state stay as the first call left
  them, whatever the chain would answer to a new read. When the contract object could be
  built, the result of the first call is in the cache under the lowercased address; this
  includes the result whose three reads failed and that holds the fallback values.
\<close>

theorem getTokenInfo_twice:
  "getTokenInfo e st a = (info, st') \<Longrightarrow>
     fst (getTokenInfo e st' a) = info \<and> calls (snd (getTokenInfo e st' a)) = calls st'
     \<and> snd (getTokenInfo e st' a) = st'
     \<and> (\<not> Contract_throws e a \<longrightarrow> tokenCache st' (toLowerCase a) = Some info)"
  by (auto simp: getTokenInfo_def Let_def split: option.splits if_splits)

theorem getTokenInfo_twice_witness:
  "fst (getTokenInfo mock_env st0 ''0xC3'') =
     \<lparr>address = ''0xC3'', symbol = ''UNKNOWN'', name = ''Unknown Token'', decimals = 18\<rparr>
   \<and> calls (snd (getTokenInfo mock_env st0 ''0xC3'')) = 3
   \<and> fst (getTokenInfo mock_env (snd (getTokenInfo mock_env st0 ''0xC3'')) ''0xC3'') =
     \<lparr>address = ''0xC3'', symbol = ''UNKNOWN'', name = ''Unknown Token'', decimals = 18\<rparr>
   \<and> calls (snd (getTokenInfo mock_env (snd (getTokenInfo mock_env st0 ''0xC3'')) ''0xC3'')) = 3"
proof -
  have first: "getTokenInfo mock_env st0 ''0xC3'' =
      (fst (getTokenInfo mock_env st0 ''0xC3''), snd (getTokenInfo mock_env st0 ''0xC3''))"
    by simp
  have info: "fst (getTokenInfo mock_env st0 ''0xC3'') =
     \<lparr>address = ''0xC3'', symbol = ''UNKNOWN'', name = ''Unknown Token'', decimals = 18\<rparr>"
    by (simp add: getTokenInfo_def mock_env_def st0_def tokenA_def tokenB_def Let_def)
  have count: "calls (snd (getTokenInfo mock_env st0 ''0xC3'')) = 3"
    by (simp add: getTokenInfo_def mock_env_def st0_def Let_def)
  from getTokenInfo_twice [OF first] info count show ?thesis by simp
qed

end
